theory Spec2Isabelle
  imports Complex_Main "HOL-Library.Word"
begin

section \<open>JavaScript values used by the components\<close>

text \<open>
  A JavaScript string is a sequence of UTF-16 code units; \<open>length\<close> and \<open>slice\<close> count
  code units. String literals of the source are written \<open>lit ''...''\<close>.
\<close>

type_synonym code_unit = "16 word"
type_synonym jsstring = "code_unit list"

definition lit :: "string \<Rightarrow> jsstring" where
  "lit s = map of_char s"

text \<open>\<open>s.slice(0, n)\<close> for a literal \<open>n \<ge> 0\<close>.\<close>

definition slice0 :: "nat \<Rightarrow> jsstring \<Rightarrow> jsstring" where
  "slice0 n s = take n s"

text \<open>\<open>xs.join(sep)\<close> on an array of strings.\<close>

fun join :: "jsstring \<Rightarrow> jsstring list \<Rightarrow> jsstring" where
  "join sep [] = []"
| "join sep [x] = x"
| "join sep (x # y # ys) = x @ sep @ join sep (y # ys)"

text \<open>
  \<open>s.trim()\<close> removes the WhiteSpace and LineTerminator code units of ECMAScript from
  both ends of the string.
\<close>

definition is_white_space :: "code_unit \<Rightarrow> bool" where
  "is_white_space c \<longleftrightarrow>
     c \<in> {0x0009, 0x000A, 0x000B, 0x000C, 0x000D, 0x0020, 0x00A0, 0x1680,
          0x2000, 0x2001, 0x2002, 0x2003, 0x2004, 0x2005, 0x2006, 0x2007,
          0x2008, 0x2009, 0x200A, 0x2028, 0x2029, 0x202F, 0x205F, 0x3000, 0xFEFF}"

definition trim :: "jsstring \<Rightarrow> jsstring" where
  "trim s = rev (dropWhile is_white_space (rev (dropWhile is_white_space s)))"

text \<open>
  Counts (array lengths, HTTP status codes, the backend's counters) are integers; a
  template literal prints them in decimal.
\<close>

function dec_digits :: "nat \<Rightarrow> jsstring" where
  "dec_digits n =
     (if n < 10 then [of_nat (48 + n)]
      else dec_digits (n div 10) @ [of_nat (48 + n mod 10)])"
  by pat_completeness auto
termination
  by (relation "measure id") auto

declare dec_digits.simps [simp del]

definition Number_toString :: "int \<Rightarrow> jsstring" where
  "Number_toString i =
     (if i < 0 then lit ''-'' @ dec_digits (nat (- i)) else dec_digits (nat i))"

text \<open>
  A similarity is an IEEE double. Its arithmetic and \<open>toFixed\<close> are the runtime's, so
  the renderer takes them as operations on the number type \<open>'n\<close>.
\<close>

record 'n number_ops =
  times :: "'n \<Rightarrow> 'n \<Rightarrow> 'n"
  num :: "int \<Rightarrow> 'n"
  toFixed :: "'n \<Rightarrow> nat \<Rightarrow> jsstring"

section \<open>Payloads of the backend\<close>

text \<open>
  \<open>POST /ask\<close> returns \<open>{ answer, vector_context: [{ paper_id, text, similarity }],
  graph_context: [{ type, data }] }\<close>. The field \<open>text\<close> is \<open>entry_text\<close> here, an item's
  \<open>type\<close> and \<open>data\<close> are \<open>item_type\<close> and \<open>item_data\<close>, and the fields of \<open>data\<close> carry
  the prefix \<open>data_\<close>. The renderer reads \<open>data.authors\<close> as an optional field.
\<close>

record 'n vector_entry =
  paper_id :: jsstring
  entry_text :: jsstring
  similarity :: 'n

record graph_data =
  data_id :: jsstring
  data_title :: jsstring
  data_authors :: "jsstring list option"
  data_from :: jsstring
  data_to :: jsstring
  data_type :: jsstring

record graph_item =
  item_type :: jsstring
  item_data :: graph_data

record 'n results =
  answer :: jsstring
  vector_context :: "'n vector_entry list"
  graph_context :: "graph_item list"

text \<open>\<open>GET /stats\<close> returns \<open>{ papers_processed, chunks_processed, vectorizer_fitted }\<close>.\<close>

record stats =
  papers_processed :: int
  chunks_processed :: int
  vectorizer_fitted :: bool

text \<open>
  The upload status object \<open>{ type, message, details }\<close> held by the root container;
  the \<open>loading\<close> status is built without a \<open>details\<close> field.
\<close>

record upload_status =
  type :: jsstring
  message :: jsstring
  details :: "jsstring option"

section \<open>ResultsDisplay\<close>

subsection \<open>renderVectorContext\<close>

text \<open>
  One rendered passage: the relevance badge, the paper badge, the paragraph, and
  whether the \<open>Show full text\<close> button is present.
\<close>

record vector_item =
  relevance_badge :: jsstring
  paper_badge :: jsstring
  passage :: jsstring
  show_full_text :: bool

record vector_view =
  vector_heading :: jsstring
  vector_items :: "vector_item list"

definition render_passage :: "jsstring \<Rightarrow> jsstring" where
  "render_passage t = (if length t > 400 then slice0 400 t @ lit ''...'' else t)"

definition render_vector_entry :: "'n number_ops \<Rightarrow> 'n vector_entry \<Rightarrow> vector_item" where
  "render_vector_entry ops result =
     \<lparr> relevance_badge = lit ''Relevance: '' @
                     toFixed ops (times ops (similarity result) (num ops 100)) 1 @ lit ''%'',
       paper_badge = lit ''Paper: '' @ slice0 8 (paper_id result) @ lit ''...'',
       passage = render_passage (entry_text result),
       show_full_text = (length (entry_text result) > 400) \<rparr>"

definition renderVectorContext :: "'n number_ops \<Rightarrow> 'n results \<Rightarrow> vector_view" where
  "renderVectorContext ops res =
     \<lparr> vector_heading = lit ''Semantic Search Results ('' @
                          Number_toString (int (length (vector_context res))) @
                          lit '' relevant passages)'',
       vector_items = map (render_vector_entry ops) (vector_context res) \<rparr>"

subsection \<open>renderGraphContext\<close>

record paper_card =
  card_title :: jsstring
  card_authors :: "jsstring option"
  card_connections :: "jsstring list"
  card_no_connections :: "jsstring option"

record graph_view =
  graph_heading :: jsstring
  graph_cards :: "paper_card list"

definition papers :: "'n results \<Rightarrow> graph_item list" where
  "papers res = filter (\<lambda>item. item_type item = lit ''paper'') (graph_context res)"

definition relationships :: "'n results \<Rightarrow> graph_item list" where
  "relationships res =
     filter (\<lambda>item. item_type item = lit ''relationship'') (graph_context res)"

definition render_connection :: "graph_item \<Rightarrow> jsstring" where
  "render_connection rel =
     data_type (item_data rel) @ lit '': '' @ slice0 8 (data_to (item_data rel)) @ lit ''...''"

definition render_paper :: "graph_item list \<Rightarrow> graph_item \<Rightarrow> paper_card" where
  "render_paper rels paper =
     \<lparr> card_title = data_title (item_data paper),
       card_authors =
         (case data_authors (item_data paper) of
            None \<Rightarrow> None
          | Some as \<Rightarrow>
              if length as > 0 then Some (lit ''Authors: '' @ join (lit '', '') as) else None),
       card_connections =
         map render_connection
           (filter (\<lambda>rel. data_from (item_data rel) = data_id (item_data paper)) rels),
       card_no_connections =
         (if length (filter (\<lambda>rel. data_from (item_data rel) = data_id (item_data paper)) rels) = 0
          then Some (lit ''No direct connections found'') else None) \<rparr>"

definition renderGraphContext :: "'n results \<Rightarrow> graph_view" where
  "renderGraphContext res =
     \<lparr> graph_heading = lit ''Research Papers Analyzed ('' @
                         Number_toString (int (length (papers res))) @ lit '')'',
       graph_cards = map (render_paper (relationships res)) (papers res) \<rparr>"

subsection \<open>renderAnswer\<close>

record answer_view =
  answer_text :: jsstring
  semantic_summary :: jsstring
  graph_summary :: jsstring

definition renderAnswer :: "'n results \<Rightarrow> answer_view" where
  "renderAnswer res =
     \<lparr> answer_text = answer res,
       semantic_summary = lit ''Found '' @
                          Number_toString (int (length (vector_context res))) @
                          lit '' relevant text passages'',
       graph_summary = lit ''Analyzed '' @
                       Number_toString
                         (int (length (filter (\<lambda>item. item_type item = lit ''paper'')
                                         (graph_context res)))) @
                       lit '' research papers'' \<rparr>"

section \<open>StatsPanel\<close>

text \<open>
  The panel: the two service badges, the \<open>Last Upload\<close> block (message and details) and
  the \<open>SYSTEM STATS\<close> block. A number placed in a cell is shown as it is.
\<close>

record stats_block =
  papers_cell :: int
  chunks_cell :: int
  vectorizer_cell :: jsstring

record stats_panel =
  neo4j_badge :: jsstring
  vector_engine_badge :: jsstring
  last_upload :: "(jsstring \<times> jsstring option) option"
  system_stats :: "stats_block option"

definition truthy :: "jsstring option \<Rightarrow> bool" where
  "truthy v = (case v of None \<Rightarrow> False | Some s \<Rightarrow> s \<noteq> [])"

definition StatsPanel :: "stats option \<Rightarrow> upload_status option \<Rightarrow> stats_panel" where
  "StatsPanel stats uploadStatus =
     \<lparr> neo4j_badge = lit ''Connected'',
       vector_engine_badge = lit ''Ready'',
       last_upload =
         (case uploadStatus of
            None \<Rightarrow> None
          | Some us \<Rightarrow>
              if type us = lit ''success''
              then Some (message us, if truthy (details us) then details us else None)
              else None),
       system_stats =
         (case stats of
            None \<Rightarrow> None
          | Some s \<Rightarrow>
              Some \<lparr> papers_cell = papers_processed s,
                     chunks_cell = chunks_processed s,
                     vectorizer_cell =
                       (if vectorizer_fitted s then lit ''Trained'' else lit ''Ready'') \<rparr>) \<rparr>"

section \<open>FileUpload\<close>

text \<open>
  \<open>POST /upload\<close> returns \<open>{ title, chunks_processed, authors }\<close>; the fields carry the
  prefix \<open>upload_\<close> here. A rejected axios request carries an optional \<open>response\<close> with
  the \<open>status\<close> and an optional body \<open>data\<close> holding an optional \<open>detail\<close>. A \<open>File\<close> has
  a \<open>name\<close> and a MIME \<open>type\<close>.
\<close>

record upload_data =
  upload_title :: jsstring
  upload_chunks_processed :: int
  upload_authors :: "jsstring list"

record error_data =
  detail :: "jsstring option"

record error_response =
  status :: nat
  data :: "error_data option"

record axios_error =
  response :: "error_response option"

record browser_file =
  file_name :: jsstring
  file_type :: jsstring

text \<open>
  What a handler of the component does, in program order: state setters, the callbacks
  of the root container, the requests it issues and what it logs. The outcome of each
  request (\<open>Inl\<close> a rejection, \<open>Inr\<close> the response's \<open>data\<close>) is an input of the handler.
\<close>

datatype upload_effect =
    PreventDefault
  | SetIsDragging bool
  | SetIsUploading bool
  | OnUploadStatus upload_status
  | PostUpload browser_file
  | GetStats
  | OnStatsUpdate stats
  | ConsoleError jsstring

text \<open>\<open>error.response?.data?.detail\<close> and \<open>error.response?.status\<close>.\<close>

definition error_detail :: "axios_error \<Rightarrow> jsstring option" where
  "error_detail err =
     (case response err of
        None \<Rightarrow> None
      | Some r \<Rightarrow> (case data r of None \<Rightarrow> None | Some d \<Rightarrow> detail d))"

definition error_status :: "axios_error \<Rightarrow> nat option" where
  "error_status err = (case response err of None \<Rightarrow> None | Some r \<Rightarrow> Some (status r))"

text \<open>\<open>v || fallback\<close> on an optional string: the fallback replaces a falsy \<open>v\<close>.\<close>

definition or_else :: "jsstring option \<Rightarrow> jsstring \<Rightarrow> jsstring" where
  "or_else v fallback = (case v of None \<Rightarrow> fallback | Some s \<Rightarrow> if s = [] then fallback else s)"

definition loading_status :: upload_status where
  "loading_status =
     \<lparr> type = lit ''loading'', message = lit ''Uploading and processing PDF...'',
       details = None \<rparr>"

definition success_status :: "upload_data \<Rightarrow> upload_status" where
  "success_status d =
     \<lparr> type = lit ''success'',
       message = lit ''Processed: '' @ upload_title d,
       details = Some (Number_toString (upload_chunks_processed d) @ lit '' chunks '' @
                       [0x2022] @ lit '' '' @ join (lit '', '') (upload_authors d)) \<rparr>"

definition error_upload_status :: "axios_error \<Rightarrow> upload_status" where
  "error_upload_status err =
     \<lparr> type = lit ''error'',
       message = or_else (error_detail err) (lit ''Upload failed. Please try again.''),
       details = Some (case error_status err of
                         None \<Rightarrow> []
                       | Some n \<Rightarrow>
                           if n \<noteq> 0 then lit ''Status: '' @ Number_toString (int n) else []) \<rparr>"

definition handleFileUpload ::
  "browser_file \<Rightarrow> axios_error + upload_data \<Rightarrow> axios_error + stats \<Rightarrow> upload_effect list" where
  "handleFileUpload f post get =
     [SetIsUploading True, OnUploadStatus loading_status, PostUpload f] @
     (case post of
        Inr d \<Rightarrow>
          [OnUploadStatus (success_status d), GetStats] @
          (case get of
             Inr s \<Rightarrow> [OnStatsUpdate s]
           | Inl statsError \<Rightarrow> [ConsoleError (lit ''Failed to fetch stats:'')])
      | Inl err \<Rightarrow>
          [ConsoleError (lit ''Upload error:''), OnUploadStatus (error_upload_status err)]) @
     [SetIsUploading False]"

definition handleDragOver :: "upload_effect list" where
  "handleDragOver = [PreventDefault, SetIsDragging True]"

definition handleDragLeave :: "upload_effect list" where
  "handleDragLeave = [PreventDefault, SetIsDragging False]"

definition handleDrop ::
  "browser_file list \<Rightarrow> axios_error + upload_data \<Rightarrow> axios_error + stats \<Rightarrow> upload_effect list" where
  "handleDrop files post get =
     [PreventDefault, SetIsDragging False] @
     (case files of
        [] \<Rightarrow> []
      | f # _ \<Rightarrow>
          if file_type f = lit ''application/pdf'' then handleFileUpload f post get else [])"

definition handleFileSelect ::
  "browser_file list \<Rightarrow> axios_error + upload_data \<Rightarrow> axios_error + stats \<Rightarrow> upload_effect list" where
  "handleFileSelect files post get =
     (case files of
        [] \<Rightarrow> []
      | f # _ \<Rightarrow>
          if file_type f = lit ''application/pdf'' then handleFileUpload f post get else [])"

section \<open>QuestionForm\<close>

datatype 'n question_effect =
    SubmitPreventDefault
  | OnLoading bool
  | PostAsk jsstring
  | OnResults "'n results"
  | ConsoleErrorAsk jsstring
  | Alert jsstring

definition handleSubmit ::
  "jsstring \<Rightarrow> axios_error + 'n results \<Rightarrow> 'n question_effect list" where
  "handleSubmit question post =
     SubmitPreventDefault #
     (if trim question = [] then []
      else
        [OnLoading True, PostAsk (trim question)] @
        (case post of
           Inr d \<Rightarrow> [OnResults d]
         | Inl err \<Rightarrow>
             [ConsoleErrorAsk (lit ''Error asking question:''),
              Alert (or_else (error_detail err)
                       (lit ''Error processing your question. Please try again.''))]) @
        [OnLoading False])"

text \<open>The \<open>disabled\<close> attributes of the textarea and of the submit button.\<close>

definition textarea_disabled :: "upload_status option \<Rightarrow> bool" where
  "textarea_disabled uploadStatus =
     (case uploadStatus of None \<Rightarrow> True | Some us \<Rightarrow> type us = lit ''loading'')"

definition submit_disabled :: "jsstring \<Rightarrow> upload_status option \<Rightarrow> bool" where
  "submit_disabled question uploadStatus =
     (trim question = [] \<or>
      (case uploadStatus of None \<Rightarrow> True | Some us \<Rightarrow> type us \<noteq> lit ''success''))"

text \<open>
  Activating the submit button: the browser ignores a disabled button, and otherwise
  submits the form, which runs \<open>handleSubmit\<close>.
\<close>

definition click_submit ::
  "jsstring \<Rightarrow> upload_status option \<Rightarrow> axios_error + 'n results \<Rightarrow> 'n question_effect list" where
  "click_submit question uploadStatus post =
     (if submit_disabled question uploadStatus then [] else handleSubmit question post)"

section \<open>App\<close>

text \<open>
  The state cells of the root container (\<open>results\<close>, \<open>loading\<close>, \<open>activeTab\<close>,
  \<open>uploadStatus\<close>, \<open>stats\<close>) and of the two components (\<open>isDragging\<close>, \<open>isUploading\<close>,
  \<open>question\<close>). The root container passes its setters as the callbacks
  \<open>onUploadStatus\<close>, \<open>onStatsUpdate\<close>, \<open>onResults\<close> and \<open>onLoading\<close>.
\<close>

record 'n ui_state =
  results :: "'n results option"
  loading :: bool
  activeTab :: jsstring
  uploadStatus :: "upload_status option"
  stats :: "stats option"
  isDragging :: bool
  isUploading :: bool
  question :: jsstring

fun upload_step :: "upload_effect \<Rightarrow> 'n ui_state \<Rightarrow> 'n ui_state" where
  "upload_step (SetIsDragging b) st = st\<lparr>isDragging := b\<rparr>"
| "upload_step (SetIsUploading b) st = st\<lparr>isUploading := b\<rparr>"
| "upload_step (OnUploadStatus us) st = st\<lparr>uploadStatus := Some us\<rparr>"
| "upload_step (OnStatsUpdate s) st = st\<lparr>stats := Some s\<rparr>"
| "upload_step _ st = st"

fun question_step :: "'n question_effect \<Rightarrow> 'n ui_state \<Rightarrow> 'n ui_state" where
  "question_step (OnLoading b) st = st\<lparr>loading := b\<rparr>"
| "question_step (OnResults d) st = st\<lparr>results := Some d\<rparr>"
| "question_step _ st = st"

definition run_upload :: "upload_effect list \<Rightarrow> 'n ui_state \<Rightarrow> 'n ui_state" where
  "run_upload effects st = fold upload_step effects st"

definition run_question :: "'n question_effect list \<Rightarrow> 'n ui_state \<Rightarrow> 'n ui_state" where
  "run_question effects st = fold question_step effects st"

text \<open>Observations of a handler's effects: the callbacks it made and the requests it sent.\<close>

fun status_updates :: "upload_effect list \<Rightarrow> upload_status list" where
  "status_updates [] = []"
| "status_updates (OnUploadStatus us # es) = us # status_updates es"
| "status_updates (_ # es) = status_updates es"

fun stats_updates :: "upload_effect list \<Rightarrow> stats list" where
  "stats_updates [] = []"
| "stats_updates (OnStatsUpdate s # es) = s # stats_updates es"
| "stats_updates (_ # es) = stats_updates es"

fun is_request :: "upload_effect \<Rightarrow> bool" where
  "is_request (PostUpload f) = True"
| "is_request GetStats = True"
| "is_request _ = False"

fun results_updates :: "'n question_effect list \<Rightarrow> 'n results list" where
  "results_updates [] = []"
| "results_updates (OnResults d # es) = d # results_updates es"
| "results_updates (_ # es) = results_updates es"

fun asked :: "'n question_effect list \<Rightarrow> jsstring list" where
  "asked [] = []"
| "asked (PostAsk q # es) = q # asked es"
| "asked (_ # es) = asked es"

section \<open>The specification's reading of the Knowledge Graph tab\<close>

text \<open>
  The entries the tab is said to list: the \<open>graph_context\<close> entries of type \<open>paper\<close>,
  and for a paper the entries of type \<open>relationship\<close> whose \<open>data.from\<close> is the paper's
  \<open>data.id\<close>.
\<close>

definition paper_entries :: "graph_item list \<Rightarrow> graph_item list" where
  "paper_entries gc = [item \<leftarrow> gc. item_type item = lit ''paper'']"

definition connections_of :: "graph_item list \<Rightarrow> graph_item \<Rightarrow> graph_item list" where
  "connections_of gc p =
     [rel \<leftarrow> gc. item_type rel = lit ''relationship'' \<and>
                  data_from (item_data rel) = data_id (item_data p)]"

section \<open>Concrete payloads\<close>

text \<open>
  An instance of the number operations on exact rationals, with \<open>toFixed\<close> as ECMAScript
  defines it on the exact value (the nearest multiple of \<open>10\<^sup>-\<^sup>k\<close>, the larger one on a
  tie), and a results payload to run the renderers on.
\<close>

definition toFixed_rat :: "rat \<Rightarrow> nat \<Rightarrow> jsstring" where
  "toFixed_rat x k =
     (let n = nat \<lfloor>\<bar>x\<bar> * 10 ^ k + 1 / 2\<rfloor>;
          ds = dec_digits n;
          m = replicate (k + 1 - length ds) 0x30 @ ds
      in (if x < 0 then lit ''-'' else []) @
         (if k = 0 then m else take (length m - k) m @ lit ''.'' @ drop (length m - k) m))"

definition rat_ops :: "rat number_ops" where
  "rat_ops = \<lparr> times = (*), num = of_int, toFixed = toFixed_rat \<rparr>"


definition example_results :: "rat results" where
  "example_results =
     \<lparr> answer = lit ''Batch normalization reduces internal covariate shift.'',
       vector_context =
         [\<lparr> paper_id = lit ''3f2a9c1e-77b0'', entry_text = lit ''We normalize each layer.'',
            similarity = 1 / 2 \<rparr>,
          \<lparr> paper_id = lit ''p2'', entry_text = replicate 401 0x61, similarity = 7 / 8 \<rparr>],
       graph_context =
         [\<lparr> item_type = lit ''paper'',
            item_data = \<lparr> data_id = lit ''p1'', data_title = lit ''Batch Normalization'',
                          data_authors = Some [lit ''Ioffe'', lit ''Szegedy''],
                          data_from = [], data_to = [], data_type = [] \<rparr> \<rparr>,
          \<lparr> item_type = lit ''relationship'',
            item_data = \<lparr> data_id = [], data_title = [], data_authors = None,
                          data_from = lit ''p1'', data_to = lit ''author-ioffe'',
                          data_type = lit ''AUTHORED_BY'' \<rparr> \<rparr>,
          \<lparr> item_type = lit ''concept'',
            item_data = \<lparr> data_id = lit ''p1'', data_title = lit ''normalization'',
                          data_authors = None,
                          data_from = lit ''p1'', data_to = lit ''p2'', data_type = [] \<rparr> \<rparr>,
          \<lparr> item_type = lit ''paper'',
            item_data = \<lparr> data_id = lit ''p2'', data_title = lit ''Dropout'',
                          data_authors = None,
                          data_from = [], data_to = [], data_type = [] \<rparr> \<rparr>,
          \<lparr> item_type = lit ''relationship'',
            item_data = \<lparr> data_id = [], data_title = [], data_authors = None,
                          data_from = lit ''p3'', data_to = lit ''p1'',
                          data_type = lit ''CITES'' \<rparr> \<rparr>] \<rparr>"

text \<open>A PDF and an image, an upload response, a stats payload, and rejected requests.\<close>

definition example_file :: browser_file where
  "example_file = \<lparr> file_name = lit ''attention.pdf'', file_type = lit ''application/pdf'' \<rparr>"

definition example_image :: browser_file where
  "example_image = \<lparr> file_name = lit ''figure.png'', file_type = lit ''image/png'' \<rparr>"

definition example_upload :: upload_data where
  "example_upload =
     \<lparr> upload_title = lit ''Attention Is All You Need'', upload_chunks_processed = 42,
       upload_authors = [lit ''Vaswani'', lit ''Shazeer''] \<rparr>"

definition example_stats :: stats where
  "example_stats = \<lparr> papers_processed = 3, chunks_processed = 42, vectorizer_fitted = True \<rparr>"

definition network_error :: axios_error where
  "network_error = \<lparr> response = None \<rparr>"

definition empty_detail_error :: axios_error where
  "empty_detail_error =
     \<lparr> response = Some \<lparr> status = 400, data = Some \<lparr> detail = Some [] \<rparr> \<rparr> \<rparr>"

definition invalid_pdf_error :: axios_error where
  "invalid_pdf_error =
     \<lparr> response = Some \<lparr> status = 422, data = Some \<lparr> detail = Some (lit ''Not a PDF'') \<rparr> \<rparr> \<rparr>"

definition initial_state :: "rat ui_state" where
  "initial_state =
     \<lparr> results = None, loading = False, activeTab = lit ''answer'', uploadStatus = None,
       stats = None, isDragging = False, isUploading = False, question = [] \<rparr>"

section \<open>Properties of ResultsDisplay\<close>

lemma toFixed_rat_examples:
  "toFixed rat_ops (times rat_ops (1 / 2) (num rat_ops 100)) 1 = lit ''50.0''"
  "toFixed rat_ops (times rat_ops (7 / 8) (num rat_ops 100)) 1 = lit ''87.5''"
  by code_simp+

lemma render_passage_cases:
  "render_passage t = (if length t \<le> 400 then t else take 400 t @ lit ''...'')"
  by (simp add: render_passage_def slice0_def)

text \<open>
  Claim C3. For every entry of \<open>vector_context\<close>, the passage rendered in the Semantic
  Results tab is the entry's text when the text has at most 400 code units, and
  otherwise the first 400 code units of the text followed by \<open>...\<close>.
\<close>

theorem passage_truncation:
  assumes "i < length (vector_context res)"
  shows "(length (entry_text (vector_context res ! i)) \<le> 400 \<longrightarrow>
            passage (vector_items (renderVectorContext ops res) ! i) =
              entry_text (vector_context res ! i)) \<and>
         (length (entry_text (vector_context res ! i)) > 400 \<longrightarrow>
            passage (vector_items (renderVectorContext ops res) ! i) =
              take 400 (entry_text (vector_context res ! i)) @ lit ''...'')"
  using assms
  by (simp add: renderVectorContext_def render_vector_entry_def render_passage_cases)

theorem passage_truncation_witness:
  "passage (vector_items (renderVectorContext rat_ops example_results) ! 0) =
     lit ''We normalize each layer.'' \<and>
   passage (vector_items (renderVectorContext rat_ops example_results) ! 1) =
     replicate 400 0x61 @ lit ''...''"
proof -
  have len: "0 < length (vector_context example_results)"
            "1 < length (vector_context example_results)"
    by (simp_all add: example_results_def)
  have short: "length (entry_text (vector_context example_results ! 0)) \<le> 400"
    by (simp add: example_results_def lit_def)
  have long: "length (entry_text (vector_context example_results ! 1)) > 400"
    by (simp add: example_results_def)
  from passage_truncation [OF len(1), of rat_ops] short
  have a: "passage (vector_items (renderVectorContext rat_ops example_results) ! 0) =
             entry_text (vector_context example_results ! 0)"
    by blast
  from passage_truncation [OF len(2), of rat_ops] long
  have b: "passage (vector_items (renderVectorContext rat_ops example_results) ! 1) =
             take 400 (entry_text (vector_context example_results ! 1)) @ lit ''...''"
    by blast
  show ?thesis
    using a b by (simp add: example_results_def)
qed

text \<open>
  Claim C7. The Semantic Results tab renders one item per \<open>vector_context\<close> entry, the
  \<open>i\<close>-th item from the \<open>i\<close>-th entry of the payload: nothing is reordered or dropped.
  Each item shows the similarity times 100 formatted by \<open>toFixed(1)\<close> and followed by
  \<open>%\<close>, and the first 8 code units of the entry's \<open>paper_id\<close>.
\<close>

theorem vector_items_follow_payload:
  "length (vector_items (renderVectorContext ops res)) = length (vector_context res) \<and>
   (\<forall>i < length (vector_context res).
      relevance_badge (vector_items (renderVectorContext ops res) ! i) =
        lit ''Relevance: '' @
        toFixed ops (times ops (similarity (vector_context res ! i)) (num ops 100)) 1 @
        lit ''%'' \<and>
      paper_badge (vector_items (renderVectorContext ops res) ! i) =
        lit ''Paper: '' @ take 8 (paper_id (vector_context res ! i)) @ lit ''...'' \<and>
      passage (vector_items (renderVectorContext ops res) ! i) =
        render_passage (entry_text (vector_context res ! i)))"
  by (simp add: renderVectorContext_def render_vector_entry_def slice0_def)

theorem vector_items_follow_payload_witness:
  "length (vector_items (renderVectorContext rat_ops example_results)) = 2 \<and>
   relevance_badge (vector_items (renderVectorContext rat_ops example_results) ! 0) =
     lit ''Relevance: 50.0%'' \<and>
   paper_badge (vector_items (renderVectorContext rat_ops example_results) ! 0) =
     lit ''Paper: 3f2a9c1e...'' \<and>
   relevance_badge (vector_items (renderVectorContext rat_ops example_results) ! 1) =
     lit ''Relevance: 87.5%'' \<and>
   paper_badge (vector_items (renderVectorContext rat_ops example_results) ! 1) =
     lit ''Paper: p2...''"
proof -
  let ?items = "vector_items (renderVectorContext rat_ops example_results)"
  have ctx: "length (vector_context example_results) = 2"
    by (simp add: example_results_def)
  from vector_items_follow_payload [of rat_ops example_results] ctx
  have len: "length ?items = 2"
    and at: "\<And>i. i < 2 \<Longrightarrow>
      relevance_badge (?items ! i) =
        lit ''Relevance: '' @
        toFixed rat_ops (times rat_ops (similarity (vector_context example_results ! i))
                           (num rat_ops 100)) 1 @ lit ''%'' \<and>
      paper_badge (?items ! i) =
        lit ''Paper: '' @ take 8 (paper_id (vector_context example_results ! i)) @ lit ''...''"
    by simp_all
  have e0: "vector_context example_results ! 0 =
              \<lparr> paper_id = lit ''3f2a9c1e-77b0'', entry_text = lit ''We normalize each layer.'',
                similarity = 1 / 2 \<rparr>"
    and e1: "vector_context example_results ! 1 =
              \<lparr> paper_id = lit ''p2'', entry_text = replicate 401 0x61, similarity = 7 / 8 \<rparr>"
    by (simp_all add: example_results_def)
  have i0: "relevance_badge (?items ! 0) = lit ''Relevance: 50.0%''"
           "paper_badge (?items ! 0) = lit ''Paper: 3f2a9c1e...''"
    using at [of 0] by (simp_all add: e0 lit_def toFixed_rat_examples del: One_nat_def)
  have i1: "relevance_badge (?items ! 1) = lit ''Relevance: 87.5%''"
           "paper_badge (?items ! 1) = lit ''Paper: p2...''"
    using at [of 1] by (simp_all add: e1 lit_def toFixed_rat_examples del: One_nat_def)
  show ?thesis
    using len i0 i1 by blast
qed

lemma Number_toString_examples:
  "Number_toString 2 = lit ''2''"
  "Number_toString 42 = lit ''42''"
  "Number_toString 400 = lit ''400''"
  "Number_toString 422 = lit ''422''"
  by (simp_all add: Number_toString_def dec_digits.simps lit_def)

lemma papers_paper_entries: "papers res = paper_entries (graph_context res)"
  by (simp add: papers_def paper_entries_def)

lemma connections_of_relationships:
  "filter (\<lambda>rel. data_from (item_data rel) = data_id (item_data p)) (relationships res) =
   connections_of (graph_context res) p"
  by (simp add: relationships_def connections_of_def conj_commute)

lemma render_paper_connections:
  "card_connections (render_paper (relationships res) p) =
     map render_connection (connections_of (graph_context res) p)"
  by (simp add: render_paper_def connections_of_relationships)

lemma render_paper_no_connections:
  "card_no_connections (render_paper (relationships res) p) =
     (if connections_of (graph_context res) p = []
      then Some (lit ''No direct connections found'') else None)"
  by (simp add: render_paper_def connections_of_relationships)

text \<open>
  Claim C5. The Knowledge Graph tab lists one card per \<open>graph_context\<close> entry of type
  \<open>paper\<close>, in payload order. The connections under a card are the entries of type
  \<open>relationship\<close> whose \<open>data.from\<close> equals the paper's \<open>data.id\<close>, and
  \<open>No direct connections found\<close> is shown when there is none. The answer tab counts
  the entries of type \<open>paper\<close> as its research papers.
\<close>

theorem knowledge_graph_tab:
  "map card_title (graph_cards (renderGraphContext res)) =
     map (\<lambda>p. data_title (item_data p)) (paper_entries (graph_context res)) \<and>
   (\<forall>i < length (paper_entries (graph_context res)).
      card_connections (graph_cards (renderGraphContext res) ! i) =
        map render_connection
          (connections_of (graph_context res) (paper_entries (graph_context res) ! i)) \<and>
      card_no_connections (graph_cards (renderGraphContext res) ! i) =
        (if connections_of (graph_context res) (paper_entries (graph_context res) ! i) = []
         then Some (lit ''No direct connections found'') else None)) \<and>
   graph_summary (renderAnswer res) =
     lit ''Analyzed '' @ Number_toString (int (length (paper_entries (graph_context res)))) @
     lit '' research papers''"
proof (intro conjI allI impI)
  show "map card_title (graph_cards (renderGraphContext res)) =
          map (\<lambda>p. data_title (item_data p)) (paper_entries (graph_context res))"
    by (simp add: renderGraphContext_def papers_paper_entries render_paper_def)
next
  fix i assume "i < length (paper_entries (graph_context res))"
  then have card: "graph_cards (renderGraphContext res) ! i =
      render_paper (relationships res) (paper_entries (graph_context res) ! i)"
    by (simp add: renderGraphContext_def papers_paper_entries)
  show "card_connections (graph_cards (renderGraphContext res) ! i) =
          map render_connection
            (connections_of (graph_context res) (paper_entries (graph_context res) ! i))"
    by (simp only: card render_paper_connections)
  show "card_no_connections (graph_cards (renderGraphContext res) ! i) =
          (if connections_of (graph_context res) (paper_entries (graph_context res) ! i) = []
           then Some (lit ''No direct connections found'') else None)"
    by (simp only: card render_paper_no_connections)
next
  show "graph_summary (renderAnswer res) =
     lit ''Analyzed '' @ Number_toString (int (length (paper_entries (graph_context res)))) @
     lit '' research papers''"
    by (simp add: renderAnswer_def paper_entries_def)
qed

lemma example_paper_entries:
  "paper_entries (graph_context example_results) =
     [graph_context example_results ! 0, graph_context example_results ! 3]"
  by (simp add: paper_entries_def example_results_def lit_def)

lemma example_connections:
  "connections_of (graph_context example_results) (graph_context example_results ! 0) =
     [graph_context example_results ! 1]"
  "connections_of (graph_context example_results) (graph_context example_results ! 3) = []"
  by (simp_all add: connections_of_def example_results_def lit_def)

theorem knowledge_graph_tab_witness:
  "map card_title (graph_cards (renderGraphContext example_results)) =
     [lit ''Batch Normalization'', lit ''Dropout''] \<and>
   card_connections (graph_cards (renderGraphContext example_results) ! 0) =
     [lit ''AUTHORED_BY: author-i...''] \<and>
   card_no_connections (graph_cards (renderGraphContext example_results) ! 0) = None \<and>
   card_connections (graph_cards (renderGraphContext example_results) ! 1) = [] \<and>
   card_no_connections (graph_cards (renderGraphContext example_results) ! 1) =
     Some (lit ''No direct connections found'') \<and>
   graph_summary (renderAnswer example_results) = lit ''Analyzed 2 research papers''"
proof -
  note kg = knowledge_graph_tab [of example_results, unfolded example_paper_entries]
  have titles: "map card_title (graph_cards (renderGraphContext example_results)) =
      [lit ''Batch Normalization'', lit ''Dropout'']"
    using kg by (simp add: example_results_def)
  have c0: "card_connections (graph_cards (renderGraphContext example_results) ! 0) =
              [lit ''AUTHORED_BY: author-i...'']"
       "card_no_connections (graph_cards (renderGraphContext example_results) ! 0) = None"
    using kg example_connections(1)
    by (simp_all add: render_connection_def slice0_def example_results_def lit_def)
  have c1: "card_connections (graph_cards (renderGraphContext example_results) ! 1) = []"
       "card_no_connections (graph_cards (renderGraphContext example_results) ! 1) =
          Some (lit ''No direct connections found'')"
    using kg example_connections(2) by simp_all
  have summary: "graph_summary (renderAnswer example_results) = lit ''Analyzed 2 research papers''"
    using kg by (simp add: Number_toString_def dec_digits.simps lit_def)
  show ?thesis
    using titles c0 c1 summary by blast
qed

section \<open>Properties of StatsPanel\<close>

text \<open>
  Claim C8. For a stats value, the panel shows \<open>papers_processed\<close> and
  \<open>chunks_processed\<close> unchanged, and the vectorizer as \<open>Trained\<close> exactly when
  \<open>vectorizer_fitted\<close> holds and as \<open>Ready\<close> otherwise. The badges \<open>Connected\<close> and
  \<open>Ready\<close> are the same for every stats value and upload status.
\<close>

theorem stats_panel_shows_stats:
  "(\<exists>b. system_stats (StatsPanel (Some s) us) = Some b \<and>
        papers_cell b = papers_processed s \<and>
        chunks_cell b = chunks_processed s \<and>
        (vectorizer_cell b = lit ''Trained'' \<longleftrightarrow> vectorizer_fitted s) \<and>
        (\<not> vectorizer_fitted s \<longrightarrow> vectorizer_cell b = lit ''Ready'')) \<and>
   neo4j_badge (StatsPanel st us') = lit ''Connected'' \<and>
   vector_engine_badge (StatsPanel st us') = lit ''Ready''"
  by (simp add: StatsPanel_def lit_def)

theorem stats_panel_shows_stats_witness:
  "\<exists>b. system_stats
          (StatsPanel
             (Some \<lparr> papers_processed = 3, chunks_processed = 42, vectorizer_fitted = False \<rparr>)
             None) = Some b \<and>
       papers_cell b = 3 \<and> chunks_cell b = 42 \<and> vectorizer_cell b = lit ''Ready''"
  using stats_panel_shows_stats
    [of "\<lparr> papers_processed = 3, chunks_processed = 42, vectorizer_fitted = False \<rparr>" None None None]
  by auto

section \<open>Properties of FileUpload\<close>

text \<open>
  Claim C1. For every file, \<open>handleFileUpload\<close> first sets the upload status to
  \<open>loading\<close> and then posts the file. When the POST succeeds, the status becomes
  \<open>success\<close> with the message \<open>Processed: \<close> and the title, and the details made of
  \<open>chunks_processed\<close> and the authors joined by \<open>, \<close>; a GET of the stats follows,
  and its payload is passed to \<open>onStatsUpdate\<close>. When the POST fails, the status
  becomes \<open>error\<close>, no stats are requested and \<open>onStatsUpdate\<close> is not called.
\<close>

theorem handleFileUpload_effects:
  "(\<exists>rest. handleFileUpload f post get =
            [SetIsUploading True, OnUploadStatus loading_status, PostUpload f] @ rest) \<and>
   type loading_status = lit ''loading'' \<and>
   (\<forall>d. post = Inr d \<longrightarrow>
      status_updates (handleFileUpload f post get) =
        [loading_status,
         \<lparr> type = lit ''success'',
           message = lit ''Processed: '' @ upload_title d,
           details = Some (Number_toString (upload_chunks_processed d) @ lit '' chunks '' @
                           [0x2022] @ lit '' '' @ join (lit '', '') (upload_authors d)) \<rparr>] \<and>
      filter is_request (handleFileUpload f post get) = [PostUpload f, GetStats] \<and>
      (\<forall>s. get = Inr s \<longrightarrow> stats_updates (handleFileUpload f post get) = [s])) \<and>
   (\<forall>err. post = Inl err \<longrightarrow>
      (\<exists>e. status_updates (handleFileUpload f post get) = [loading_status, e] \<and>
           type e = lit ''error'') \<and>
      filter is_request (handleFileUpload f post get) = [PostUpload f] \<and>
      stats_updates (handleFileUpload f post get) = [])"
  by (cases post; cases get)
     (simp_all add: handleFileUpload_def loading_status_def success_status_def
        error_upload_status_def)

theorem handleFileUpload_effects_witness:
  "status_updates (handleFileUpload example_file (Inr example_upload) (Inr example_stats)) =
     [loading_status,
      \<lparr> type = lit ''success'',
        message = lit ''Processed: Attention Is All You Need'',
        details = Some (lit ''42 chunks '' @ [0x2022] @ lit '' Vaswani, Shazeer'') \<rparr>] \<and>
   stats_updates (handleFileUpload example_file (Inr example_upload) (Inr example_stats)) =
     [example_stats] \<and>
   filter is_request (handleFileUpload example_file (Inl network_error) (Inr example_stats)) =
     [PostUpload example_file] \<and>
   stats_updates (handleFileUpload example_file (Inl network_error) (Inr example_stats)) = []"
proof -
  have ok: "status_updates
              (handleFileUpload example_file (Inr example_upload) (Inr example_stats)) =
            [loading_status,
             \<lparr> type = lit ''success'',
               message = lit ''Processed: Attention Is All You Need'',
               details = Some (lit ''42 chunks '' @ [0x2022] @ lit '' Vaswani, Shazeer'') \<rparr>]"
       "stats_updates
              (handleFileUpload example_file (Inr example_upload) (Inr example_stats)) =
            [example_stats]"
    using handleFileUpload_effects [of example_file "Inr example_upload" "Inr example_stats"]
    by (simp_all add: example_upload_def Number_toString_examples) (simp add: lit_def)
  have bad: "filter is_request
               (handleFileUpload example_file (Inl network_error) (Inr example_stats)) =
             [PostUpload example_file]"
       "stats_updates
               (handleFileUpload example_file (Inl network_error) (Inr example_stats)) = []"
    using handleFileUpload_effects [of example_file "Inl network_error" "Inr example_stats"]
    by simp_all
  show ?thesis
    using ok bad by blast
qed

lemma handleFileUpload_failed_stats:
  "handleFileUpload f (Inr d) (Inl e) =
     [SetIsUploading True, OnUploadStatus loading_status, PostUpload f,
      OnUploadStatus (success_status d), GetStats,
      ConsoleError (lit ''Failed to fetch stats:''), SetIsUploading False]"
  by (simp add: handleFileUpload_def)

text \<open>
  Claim C10. When the stats request after a successful upload fails, the failure is
  logged and nothing else happens: \<open>onStatsUpdate\<close> is not called, the last upload
  status is the \<open>success\<close> status, and the root container's stats are as before.
\<close>

theorem stats_failure_only_logged:
  "(\<exists>before. handleFileUpload f (Inr d) (Inl e) =
      before @ [GetStats, ConsoleError (lit ''Failed to fetch stats:''), SetIsUploading False]) \<and>
   stats_updates (handleFileUpload f (Inr d) (Inl e)) = [] \<and>
   last (status_updates (handleFileUpload f (Inr d) (Inl e))) = success_status d \<and>
   type (success_status d) = lit ''success'' \<and>
   uploadStatus (run_upload (handleFileUpload f (Inr d) (Inl e)) st) = Some (success_status d) \<and>
   stats (run_upload (handleFileUpload f (Inr d) (Inl e)) st) = stats st"
  by (simp add: handleFileUpload_failed_stats run_upload_def success_status_def)

theorem stats_failure_only_logged_witness:
  "uploadStatus
     (run_upload (handleFileUpload example_file (Inr example_upload) (Inl network_error))
        (initial_state\<lparr>stats := Some example_stats\<rparr>)) = Some (success_status example_upload) \<and>
   stats
     (run_upload (handleFileUpload example_file (Inr example_upload) (Inl network_error))
        (initial_state\<lparr>stats := Some example_stats\<rparr>)) = Some example_stats"
  using stats_failure_only_logged
    [of example_file example_upload network_error "initial_state\<lparr>stats := Some example_stats\<rparr>"]
  by simp

lemma no_upload_effects:
  "\<not> (\<exists>g rest. files = g # rest \<and> file_type g = lit ''application/pdf'') \<Longrightarrow>
     handleDrop files post get = [PreventDefault, SetIsDragging False] \<and>
     handleFileSelect files post get = []"
  by (cases files) (simp_all add: handleDrop_def handleFileSelect_def)

lemma PostUpload_in_handleFileUpload:
  "PostUpload g \<in> set (handleFileUpload f post get) \<longleftrightarrow> g = f"
  by (cases post; cases get) (auto simp add: handleFileUpload_def)

text \<open>
  Claim C4. A drop or a file selection posts a file exactly when the file is the first
  of the list and its MIME type is \<open>application/pdf\<close>; the files after the first
  are not looked at. Otherwise (an empty list, or a first file of another type) no
  request is sent and the upload status is unchanged.
\<close>

theorem only_first_pdf_is_uploaded:
  "(PostUpload g \<in> set (handleDrop files post get) \<longleftrightarrow>
      (\<exists>rest. files = g # rest \<and> file_type g = lit ''application/pdf'')) \<and>
   (PostUpload g \<in> set (handleFileSelect files post get) \<longleftrightarrow>
      (\<exists>rest. files = g # rest \<and> file_type g = lit ''application/pdf'')) \<and>
   handleDrop (f # others) post get = handleDrop [f] post get \<and>
   (\<not> (\<exists>h rest. files = h # rest \<and> file_type h = lit ''application/pdf'') \<longrightarrow>
      filter is_request (handleDrop files post get) = [] \<and>
      filter is_request (handleFileSelect files post get) = [] \<and>
      status_updates (handleDrop files post get) = [] \<and>
      status_updates (handleFileSelect files post get) = [] \<and>
      uploadStatus (run_upload (handleDrop files post get) st) = uploadStatus st \<and>
      uploadStatus (run_upload (handleFileSelect files post get) st) = uploadStatus st)"
proof (intro conjI impI)
  show "PostUpload g \<in> set (handleDrop files post get) \<longleftrightarrow>
          (\<exists>rest. files = g # rest \<and> file_type g = lit ''application/pdf'')"
    by (cases files) (auto simp add: handleDrop_def PostUpload_in_handleFileUpload)
  show "PostUpload g \<in> set (handleFileSelect files post get) \<longleftrightarrow>
          (\<exists>rest. files = g # rest \<and> file_type g = lit ''application/pdf'')"
    by (cases files) (auto simp add: handleFileSelect_def PostUpload_in_handleFileUpload)
  show "handleDrop (f # others) post get = handleDrop [f] post get"
    by (simp add: handleDrop_def)
next
  assume "\<not> (\<exists>h rest. files = h # rest \<and> file_type h = lit ''application/pdf'')"
  from no_upload_effects [OF this]
  have none: "handleDrop files post get = [PreventDefault, SetIsDragging False]"
             "handleFileSelect files post get = []"
    by simp_all
  show "filter is_request (handleDrop files post get) = []"
       "filter is_request (handleFileSelect files post get) = []"
       "status_updates (handleDrop files post get) = []"
       "status_updates (handleFileSelect files post get) = []"
       "uploadStatus (run_upload (handleDrop files post get) st) = uploadStatus st"
       "uploadStatus (run_upload (handleFileSelect files post get) st) = uploadStatus st"
    by (simp_all add: none run_upload_def)
qed

theorem only_first_pdf_is_uploaded_witness:
  "PostUpload example_file \<in>
     set (handleDrop [example_file, example_image] (Inr example_upload) (Inr example_stats)) \<and>
   filter is_request
     (handleDrop [example_image, example_file] (Inr example_upload) (Inr example_stats)) = [] \<and>
   uploadStatus
     (run_upload (handleFileSelect [] (Inr example_upload) (Inr example_stats)) initial_state) =
     None"
proof -
  have pdf: "file_type example_file = lit ''application/pdf''"
    by (simp add: example_file_def)
  have png: "\<not> (\<exists>h rest. [example_image, example_file] = h # rest \<and>
                         file_type h = lit ''application/pdf'')"
    by (simp add: example_image_def lit_def)
  have a: "PostUpload example_file \<in>
     set (handleDrop [example_file, example_image] (Inr example_upload) (Inr example_stats))"
    using only_first_pdf_is_uploaded
      [of example_file "[example_file, example_image]" "Inr example_upload" "Inr example_stats"]
      pdf
    by simp
  have b: "filter is_request
     (handleDrop [example_image, example_file] (Inr example_upload) (Inr example_stats)) = []"
    using only_first_pdf_is_uploaded
      [of _ "[example_image, example_file]" "Inr example_upload" "Inr example_stats"] png
    by blast
  have c: "uploadStatus
     (run_upload (handleFileSelect [] (Inr example_upload) (Inr example_stats)) initial_state) =
     None"
    using only_first_pdf_is_uploaded
      [of _ "[]" "Inr example_upload" "Inr example_stats" _ _ initial_state]
    by (simp add: initial_state_def)
  show ?thesis
    using a b c by blast
qed

text \<open>
  A response whose \<open>detail\<close> is present and is the empty string: the message shown is
  the fallback text, not the detail.
\<close>

theorem empty_detail_counterexample:
  "error_detail \<lparr> response = Some \<lparr> status = 400, data = Some \<lparr> detail = Some [] \<rparr> \<rparr> \<rparr> =
     Some [] \<and>
   status_updates
     (handleFileUpload example_file
        (Inl \<lparr> response = Some \<lparr> status = 400, data = Some \<lparr> detail = Some [] \<rparr> \<rparr> \<rparr>)
        (Inr example_stats)) =
     [loading_status,
      \<lparr> type = lit ''error'', message = lit ''Upload failed. Please try again.'',
        details = Some (lit ''Status: 400'') \<rparr>] \<and>
   lit ''Upload failed. Please try again.'' \<noteq> ([] :: jsstring)"
  by (simp add: handleFileUpload_def error_upload_status_def error_detail_def error_status_def
        or_else_def Number_toString_examples)
     (simp add: lit_def)

text \<open>
  Claim C6, amended. When the upload request fails, the status is the \<open>error\<close> status.
  Its message is the response's \<open>detail\<close> when that field is present and not the empty
  string, and the fallback \<open>Upload failed. Please try again.\<close> when the field is absent
  or empty. Its details are \<open>Status: \<close> and the status code when the error carries a
  response with a non-zero status, and the empty string otherwise.
\<close>

theorem upload_error_status_shown:
  "status_updates (handleFileUpload f (Inl err) get) = [loading_status, error_upload_status err] \<and>
   type (error_upload_status err) = lit ''error'' \<and>
   (\<forall>d. error_detail err = Some d \<and> d \<noteq> [] \<longrightarrow> message (error_upload_status err) = d) \<and>
   (error_detail err = None \<or> error_detail err = Some [] \<longrightarrow>
      message (error_upload_status err) = lit ''Upload failed. Please try again.'') \<and>
   (\<forall>n. error_status err = Some n \<and> n \<noteq> 0 \<longrightarrow>
      details (error_upload_status err) = Some (lit ''Status: '' @ Number_toString (int n))) \<and>
   (error_status err = None \<or> error_status err = Some 0 \<longrightarrow>
      details (error_upload_status err) = Some [])"
  by (auto simp add: handleFileUpload_def error_upload_status_def or_else_def)

theorem upload_error_status_shown_witness:
  "message (error_upload_status invalid_pdf_error) = lit ''Not a PDF'' \<and>
   details (error_upload_status invalid_pdf_error) = Some (lit ''Status: 422'') \<and>
   message (error_upload_status network_error) = lit ''Upload failed. Please try again.'' \<and>
   details (error_upload_status network_error) = Some [] \<and>
   message (error_upload_status empty_detail_error) = lit ''Upload failed. Please try again.''"
proof -
  have d1: "error_detail invalid_pdf_error = Some (lit ''Not a PDF'') \<and> lit ''Not a PDF'' \<noteq> []"
    and s1: "error_status invalid_pdf_error = Some 422 \<and> (422::nat) \<noteq> 0"
    by (simp_all add: invalid_pdf_error_def error_detail_def error_status_def lit_def)
  have d2: "error_detail network_error = None" and s2: "error_status network_error = None"
    by (simp_all add: network_error_def error_detail_def error_status_def)
  have d3: "error_detail empty_detail_error = Some []"
    by (simp add: empty_detail_error_def error_detail_def)
  have a: "message (error_upload_status invalid_pdf_error) = lit ''Not a PDF''"
    using upload_error_status_shown [of example_file invalid_pdf_error "Inr example_stats"] d1
    by blast
  have b: "details (error_upload_status invalid_pdf_error) = Some (lit ''Status: 422'')"
    using upload_error_status_shown [of example_file invalid_pdf_error "Inr example_stats"] s1
    by (simp add: Number_toString_examples) (simp add: lit_def)
  have c: "message (error_upload_status network_error) = lit ''Upload failed. Please try again.''"
          "details (error_upload_status network_error) = Some []"
    using upload_error_status_shown [of example_file network_error "Inr example_stats"] d2 s2
    by simp_all
  have e: "message (error_upload_status empty_detail_error) =
             lit ''Upload failed. Please try again.''"
    using upload_error_status_shown [of example_file empty_detail_error "Inr example_stats"] d3
    by simp
  show ?thesis
    using a b c e by blast
qed

section \<open>Properties of QuestionForm\<close>

lemma submit_disabled_iff:
  "submit_disabled q us \<longleftrightarrow>
     \<not> ((\<exists>s. us = Some s \<and> type s = lit ''success'') \<and> trim q \<noteq> [])"
  by (cases us) (auto simp add: submit_disabled_def)

lemma asked_handleSubmit:
  "asked (handleSubmit q post) = (if trim q = [] then [] else [trim q])"
  by (cases post) (simp_all add: handleSubmit_def)

lemma trim_example: "trim (lit ''  What is batch normalization? '') = lit ''What is batch normalization?''"
  by (simp add: trim_def lit_def is_white_space_def)

lemma trim_blank: "trim (lit ''   '') = []"
  by (simp add: trim_def lit_def is_white_space_def)

text \<open>
  Claim C2. The submit button is disabled whenever the upload status is absent, or its
  type is not \<open>success\<close>, or the trimmed question is empty, and then activating it
  does nothing. It is enabled, and a question is posted, exactly when the upload status
  has type \<open>success\<close> and the trimmed question is not empty.
\<close>

theorem submit_needs_successful_upload:
  "(us = None \<or> (\<exists>s. us = Some s \<and> type s \<noteq> lit ''success'') \<or> trim q = [] \<longrightarrow>
      submit_disabled q us \<and> click_submit q us post = []) \<and>
   (\<not> submit_disabled q us \<longleftrightarrow>
      (\<exists>s. us = Some s \<and> type s = lit ''success'') \<and> trim q \<noteq> []) \<and>
   (asked (click_submit q us post) \<noteq> [] \<longleftrightarrow>
      (\<exists>s. us = Some s \<and> type s = lit ''success'') \<and> trim q \<noteq> [])"
proof (intro conjI impI)
  assume "us = None \<or> (\<exists>s. us = Some s \<and> type s \<noteq> lit ''success'') \<or> trim q = []"
  then have "submit_disabled q us"
    by (auto simp add: submit_disabled_def)
  then show "submit_disabled q us" "click_submit q us post = []"
    by (simp_all add: click_submit_def)
next
  show "\<not> submit_disabled q us \<longleftrightarrow>
          (\<exists>s. us = Some s \<and> type s = lit ''success'') \<and> trim q \<noteq> []"
    by (simp add: submit_disabled_iff)
  show "asked (click_submit q us post) \<noteq> [] \<longleftrightarrow>
          (\<exists>s. us = Some s \<and> type s = lit ''success'') \<and> trim q \<noteq> []"
    by (simp add: click_submit_def asked_handleSubmit submit_disabled_iff)
qed

theorem submit_needs_successful_upload_witness:
  "\<not> submit_disabled (lit ''  What is batch normalization? '')
        (Some (success_status example_upload)) \<and>
   submit_disabled (lit ''  What is batch normalization? '') (Some loading_status) \<and>
   click_submit (lit ''  What is batch normalization? '') None (Inr example_results) = [] \<and>
   submit_disabled (lit ''   '') (Some (success_status example_upload))"
proof -
  have ok: "(\<exists>s. Some (success_status example_upload) = Some s \<and> type s = lit ''success'') \<and>
            trim (lit ''  What is batch normalization? '') \<noteq> []"
    by (simp add: success_status_def trim_example) (simp add: lit_def)
  have a: "\<not> submit_disabled (lit ''  What is batch normalization? '')
              (Some (success_status example_upload))"
    using submit_needs_successful_upload
      [of "Some (success_status example_upload)" "lit ''  What is batch normalization? ''"
          "Inr example_results"] ok
    by blast
  have ld: "\<exists>s. Some loading_status = Some s \<and> type s \<noteq> lit ''success''"
    by (simp add: loading_status_def lit_def)
  have b: "submit_disabled (lit ''  What is batch normalization? '') (Some loading_status)"
    using submit_needs_successful_upload
      [of "Some loading_status" "lit ''  What is batch normalization? ''" "Inr example_results"] ld
    by blast
  have c: "click_submit (lit ''  What is batch normalization? '') None (Inr example_results) = []"
    using submit_needs_successful_upload
      [of None "lit ''  What is batch normalization? ''" "Inr example_results"]
    by simp
  have d: "submit_disabled (lit ''   '') (Some (success_status example_upload))"
    using submit_needs_successful_upload
      [of "Some (success_status example_upload)" "lit ''   ''" "Inr example_results"] trim_blank
    by simp
  show ?thesis
    using a b c d by blast
qed

text \<open>
  Claim C9. When the POST to \<open>/ask\<close> fails, \<open>onResults\<close> is not called and the root
  container's results are as before. Whenever a request is sent, the last effect sets
  the loading flag to false, on success and on failure alike, and the question posted
  is the trimmed text. When the trimmed question is empty, no request is sent.
\<close>

theorem handleSubmit_failure_keeps_results:
  fixes st :: "'n ui_state" and post :: "axios_error + 'n results"
  shows
  "results_updates (handleSubmit q (Inl err) :: 'n question_effect list) = [] \<and>
   results (run_question (handleSubmit q (Inl err)) st) = results st \<and>
   (trim q \<noteq> [] \<longrightarrow>
      last (handleSubmit q post) = OnLoading False \<and>
      loading (run_question (handleSubmit q post) st) = False \<and>
      asked (handleSubmit q post) = [trim q]) \<and>
   (trim q = [] \<longrightarrow>
      asked (handleSubmit q post) = [] \<and> handleSubmit q post = [SubmitPreventDefault])"
  by (cases post) (simp_all add: handleSubmit_def run_question_def)

theorem handleSubmit_failure_keeps_results_witness:
  "results (run_question
              (handleSubmit (lit ''  What is batch normalization? '') (Inl network_error))
              (initial_state\<lparr>results := Some example_results\<rparr>)) = Some example_results \<and>
   loading (run_question
              (handleSubmit (lit ''  What is batch normalization? '') (Inl network_error))
              (initial_state\<lparr>results := Some example_results\<rparr>)) = False \<and>
   asked (handleSubmit (lit ''  What is batch normalization? '')
            (Inl network_error :: axios_error + rat results)) =
     [lit ''What is batch normalization?''] \<and>
   handleSubmit (lit ''   '') (Inr example_results) = [SubmitPreventDefault]"
proof -
  have t: "trim (lit ''  What is batch normalization? '') \<noteq> []"
    by (simp add: trim_example) (simp add: lit_def)
  have a: "results (run_question
              (handleSubmit (lit ''  What is batch normalization? '') (Inl network_error))
              (initial_state\<lparr>results := Some example_results\<rparr>)) = Some example_results"
       "loading (run_question
              (handleSubmit (lit ''  What is batch normalization? '') (Inl network_error))
              (initial_state\<lparr>results := Some example_results\<rparr>)) = False"
       "asked (handleSubmit (lit ''  What is batch normalization? '')
            (Inl network_error :: axios_error + rat results)) =
          [lit ''What is batch normalization?'']"
    using handleSubmit_failure_keeps_results
      [of "lit ''  What is batch normalization? ''" network_error
          "initial_state\<lparr>results := Some example_results\<rparr>" "Inl network_error"] t
    by (simp_all add: trim_example)
  have b: "handleSubmit (lit ''   '') (Inr example_results) = [SubmitPreventDefault]"
    using handleSubmit_failure_keeps_results
      [of "lit ''   ''" network_error initial_state "Inr example_results"] trim_blank
    by simp
  show ?thesis
    using a b by blast
qed

end
